theory Spec2Isabelle
  imports Complex_Main "HOL-Library.Sublist"
begin

section \<open>Processing modes and the time estimator\<close>

text \<open>
  The server module of the AI playlist generator: \<^verbatim>\<open>PROCESSING_CONFIGS\<close>,
  \<^verbatim>\<open>estimateProcessingTime\<close>, \<^verbatim>\<open>matchGenresToAvailableSeeds\<close>, \<^verbatim>\<open>analyzePlaylistPrompt\<close>,
  \<^verbatim>\<open>filterTracksByAIAnalysis\<close>, \<^verbatim>\<open>collectTracks\<close>, the progress endpoint and the
  \<^verbatim>\<open>/generate-playlist\<close> route. JavaScript numbers are modelled as follows: counts (track
  counts, playlist sizes, popularity, milliseconds) are \<open>nat\<close>, and every quantity the code
  computes with fractions (seconds, scores) is \<open>rat\<close>, so that \<open>0.05\<close>, \<open>0.02\<close>, \<open>1.5\<close> are
  the exact decimal constants of the source and sums are exact. The estimator's sums are
  multiples of one hundredth, which double arithmetic rounds to the same ceiling and the
  same warning level; scores in double arithmetic can differ from the exact ones in the
  last digits.
\<close>

datatype ProcessingMode = quick | standard | comprehensive | complete

record ProcessingConfig =
  maxTracksPerPlaylist :: nat
  maxPlaylists :: nat
  useAudioFeatures :: bool
  fetchAllPages :: bool
  requestDelay :: nat
  prioritizeByRelevance :: bool
  targetPoolSize :: nat

fun PROCESSING_CONFIGS :: "ProcessingMode \<Rightarrow> ProcessingConfig" where
  "PROCESSING_CONFIGS quick =
     \<lparr>maxTracksPerPlaylist = 30, maxPlaylists = 5, useAudioFeatures = True,
      fetchAllPages = False, requestDelay = 50, prioritizeByRelevance = True,
      targetPoolSize = 200\<rparr>"
| "PROCESSING_CONFIGS standard =
     \<lparr>maxTracksPerPlaylist = 50, maxPlaylists = 10, useAudioFeatures = True,
      fetchAllPages = False, requestDelay = 100, prioritizeByRelevance = True,
      targetPoolSize = 500\<rparr>"
| "PROCESSING_CONFIGS comprehensive =
     \<lparr>maxTracksPerPlaylist = 100, maxPlaylists = 20, useAudioFeatures = True,
      fetchAllPages = True, requestDelay = 150, prioritizeByRelevance = True,
      targetPoolSize = 1000\<rparr>"
| "PROCESSING_CONFIGS complete =
     \<lparr>maxTracksPerPlaylist = 0, maxPlaylists = 50, useAudioFeatures = True,
      fetchAllPages = True, requestDelay = 200, prioritizeByRelevance = False,
      targetPoolSize = 5000\<rparr>"

record PlaylistSources =
  useLikedSongs :: bool
  useTopTracks :: bool
  useRecommendations :: bool
  playlists :: "string list"

datatype WarningLevel = low | medium | high

record TimeEstimate =
  estimatedSeconds :: int
  warningLevel :: WarningLevel

text \<open>
  \<^verbatim>\<open>playlistSizes[playlistId] || 50\<close>: a missing entry and the falsy size \<open>0\<close> both give
  the default of 50. Sizes are the track totals the route reads from the catalogue, hence
  natural numbers, and the object of sizes is a map from playlist ids to them (a playlist
  id is a catalogue id, not the name of a built-in property of objects).
\<close>

definition playlistSizeOr50 :: "(string \<rightharpoonup> nat) \<Rightarrow> string \<Rightarrow> nat" where
  "playlistSizeOr50 playlistSizes playlistId =
     (case playlistSizes playlistId of
        None \<Rightarrow> 50
      | Some n \<Rightarrow> if n = 0 then 50 else n)"

definition tracksToProcess :: "ProcessingConfig \<Rightarrow> (string \<rightharpoonup> nat) \<Rightarrow> string \<Rightarrow> nat" where
  "tracksToProcess config playlistSizes playlistId =
     (let playlistSize = playlistSizeOr50 playlistSizes playlistId
      in if maxTracksPerPlaylist config = 0 then playlistSize
         else min playlistSize (maxTracksPerPlaylist config))"

text \<open>The \<^verbatim>\<open>for (const playlistId of sources.playlists)\<close> loop, with its accumulator.\<close>

fun totalEstimatedTracks ::
  "ProcessingConfig \<Rightarrow> (string \<rightharpoonup> nat) \<Rightarrow> string list \<Rightarrow> nat \<Rightarrow> nat" where
  "totalEstimatedTracks config playlistSizes [] acc = acc"
| "totalEstimatedTracks config playlistSizes (playlistId # rest) acc =
     totalEstimatedTracks config playlistSizes rest
       (acc + tracksToProcess config playlistSizes playlistId)"

definition playlistTime :: "ProcessingConfig \<Rightarrow> (string \<rightharpoonup> nat) \<Rightarrow> string list \<Rightarrow> rat" where
  "playlistTime config playlistSizes ids =
     (if length ids > 0 then
        (let total = totalEstimatedTracks config playlistSizes ids 0;
             paging = (if fetchAllPages config then (of_nat total / 100) * 2 else 0)
         in paging + of_nat total * 0.05)
      else 0)"

definition audioFeaturesTime :: "ProcessingConfig \<Rightarrow> rat" where
  "audioFeaturesTime config =
     (if useAudioFeatures config then of_nat (min (targetPoolSize config) 500) * 0.02 else 0)"

text \<open>The sum before \<^verbatim>\<open>Math.ceil\<close>; the warning level is decided on it.\<close>

definition estimatedSecondsRaw ::
  "PlaylistSources \<Rightarrow> ProcessingMode \<Rightarrow> (string \<rightharpoonup> nat) \<Rightarrow> rat" where
  "estimatedSecondsRaw sources processingMode playlistSizes =
     (let config = PROCESSING_CONFIGS processingMode;
          baseTime = 5;
          likedSongsTime = (if useLikedSongs sources then 5 else 0);
          topTracksTime = (if useTopTracks sources then 3 else 0);
          recommendationsTime = (if useRecommendations sources then 5 else 0)
      in baseTime + likedSongsTime + topTracksTime + recommendationsTime
         + playlistTime config playlistSizes (playlists sources)
         + audioFeaturesTime config)"

definition estimateProcessingTime ::
  "PlaylistSources \<Rightarrow> ProcessingMode \<Rightarrow> (string \<rightharpoonup> nat) \<Rightarrow> TimeEstimate" where
  "estimateProcessingTime sources processingMode playlistSizes =
     (let secs = estimatedSecondsRaw sources processingMode playlistSizes;
          level0 = low;
          level1 = (if secs > 60 then medium else level0);
          level2 = (if secs > 180 then high else level1)
      in \<lparr>estimatedSeconds = \<lceil>secs\<rceil>, warningLevel = level2\<rparr>)"




section \<open>Strings, arrays and sets of the JavaScript runtime\<close>

text \<open>
  Strings are ASCII \<open>char\<close> lists. \<^verbatim>\<open>toLowerCase\<close> maps the letters \<open>A\<close> to \<open>Z\<close> (codes 65 to
  90) to their lower-case forms by setting the bit of value 32, and leaves every other
  character alone.
\<close>

definition toLowerChar :: "char \<Rightarrow> char" where
  "toLowerChar c =
     (if 65 \<le> (of_char c :: nat) \<and> (of_char c :: nat) \<le> 90
      then (case c of Char b0 b1 b2 b3 b4 b5 b6 b7 \<Rightarrow> Char b0 b1 b2 b3 b4 True b6 b7)
      else c)"

definition toLowerCase :: "string \<Rightarrow> string" where
  "toLowerCase s = map toLowerChar s"

text \<open>
  \<^verbatim>\<open>String.prototype.includes\<close>: \<open>js_includes s sub\<close> holds when \<open>sub\<close> occurs in \<open>s\<close> as a
  contiguous block; the empty string occurs in every string.
\<close>

fun js_includes :: "'a list \<Rightarrow> 'a list \<Rightarrow> bool" where
  "js_includes [] sub = (sub = [])"
| "js_includes (c # cs) sub = (prefix sub (c # cs) \<or> js_includes cs sub)"

text \<open>
  \<^verbatim>\<open>Array.prototype.indexOf\<close> (\<open>None\<close> for the result \<open>-1\<close>) and array indexing, where an
  index outside the array, \<open>-1\<close> included, reads \<^verbatim>\<open>undefined\<close>, here \<open>None\<close>.
\<close>

fun indexOf :: "'a list \<Rightarrow> 'a \<Rightarrow> nat option" where
  "indexOf [] x = None"
| "indexOf (y # ys) x = (if y = x then Some 0 else map_option Suc (indexOf ys x))"

definition at_index :: "'a list \<Rightarrow> nat option \<Rightarrow> 'a option" where
  "at_index xs i = (case i of None \<Rightarrow> None | Some n \<Rightarrow> if n < length xs then Some (xs ! n) else None)"

text \<open>
  \<^verbatim>\<open>[...new Set(xs)]\<close>: a set keeps its elements in the order of their first insertion.
\<close>

definition setAdd :: "'a list \<Rightarrow> 'a \<Rightarrow> 'a list" where
  "setAdd s x = (if x \<in> set s then s else s @ [x])"

definition newSet :: "'a list \<Rightarrow> 'a list" where
  "newSet xs = foldl setAdd [] xs"

section \<open>Matching genres onto the available seeds\<close>

text \<open>The \<^verbatim>\<open>for (const aiGenre of aiGenres)\<close> loop that fills \<^verbatim>\<open>partialMatches\<close>.\<close>

fun partialMatches :: "string list \<Rightarrow> string list \<Rightarrow> string list \<Rightarrow> string list" where
  "partialMatches availableGenres [] acc = acc"
| "partialMatches availableGenres (aiGenre # rest) acc =
     (let lowercaseAiGenre = toLowerCase aiGenre;
          matches = filter (\<lambda>g. js_includes (toLowerCase g) lowercaseAiGenre
                               \<or> js_includes lowercaseAiGenre (toLowerCase g)) availableGenres
      in partialMatches availableGenres rest
           (if length matches > 0 then acc @ matches else acc))"

text \<open>
  The result is an array whose elements come from indexing \<^verbatim>\<open>availableGenres\<close>; an element
  is \<open>Some g\<close> for a genre and \<open>None\<close> for \<^verbatim>\<open>undefined\<close>.
\<close>

definition matchGenresToAvailableSeeds :: "string list \<Rightarrow> string list \<Rightarrow> string option list" where
  "matchGenresToAvailableSeeds aiGenres availableGenres =
     (if length aiGenres = 0 then []
      else
        let lowerCaseAvailableGenres = map toLowerCase availableGenres;
            exactMatches = filter (\<lambda>g. g \<in> set lowerCaseAvailableGenres) (map toLowerCase aiGenres)
        in if length exactMatches > 0
           then map (\<lambda>m. at_index availableGenres (indexOf lowerCaseAvailableGenres m)) exactMatches
           else map Some (take 5 (newSet (partialMatches availableGenres aiGenres []))))"


text \<open>
  The resolver as the specification words it. Exact matches: each AI genre that equals an
  available genre up to case, mapped back to that available genre. Substring matches: the
  available genres that contain an AI genre, or are contained in one, up to case.
  Deduplication keeps the first occurrence of each element.
\<close>

definition spec_exact_matches :: "string list \<Rightarrow> string list \<Rightarrow> string list" where
  "spec_exact_matches aiGenres availableGenres =
     List.map_filter (\<lambda>g. find (\<lambda>a. toLowerCase a = toLowerCase g) availableGenres) aiGenres"

definition spec_substring_matches :: "string list \<Rightarrow> string list \<Rightarrow> string list" where
  "spec_substring_matches aiGenres availableGenres =
     concat (map (\<lambda>g. filter (\<lambda>a. sublist (toLowerCase g) (toLowerCase a)
                                  \<or> sublist (toLowerCase a) (toLowerCase g)) availableGenres)
                 aiGenres)"

definition dedupe :: "'a list \<Rightarrow> 'a list" where
  "dedupe xs = rev (remdups (rev xs))"

definition spec_match :: "string list \<Rightarrow> string list \<Rightarrow> string list" where
  "spec_match aiGenres availableGenres =
     (if aiGenres = [] then []
      else if spec_exact_matches aiGenres availableGenres \<noteq> []
      then spec_exact_matches aiGenres availableGenres
      else take 5 (dedupe (spec_substring_matches aiGenres availableGenres)))"

section \<open>Tracks, prompt analysis and the scorer\<close>

text \<open>
  A candidate track as the pipeline sees it. \<open>popularity\<close> is the catalogue's 0 to 100
  value; the code reads it as \<^verbatim>\<open>track.popularity || 0\<close>, so an absent popularity is the
  value 0. \<open>features\<close> is \<open>None\<close> for \<^verbatim>\<open>null\<close> or absent audio features,
  \<open>extractedGenres\<close> is \<open>None\<close> when the track carries no derived genres.
\<close>

record AudioFeatures =
  energy :: rat
  tempo :: rat
  danceability :: rat
  acousticness :: rat
  instrumentalness :: rat
  valence :: rat

record Track =
  track_id :: string
  track_name :: string
  uri :: string
  popularity :: nat
  features :: "AudioFeatures option"
  extractedGenres :: "string list option"

record PromptAnalysis =
  genres :: "string list"
  moods :: "string list"
  energy_range :: "rat \<times> rat"
  tempo_range :: "rat \<times> rat"
  danceability_range :: "rat \<times> rat"
  acousticness_range :: "rat \<times> rat"
  instrumentalness_range :: "rat \<times> rat"
  valence_range :: "rat \<times> rat"
  description :: string
  filter_logic :: string
  popularity_level :: string

record ScoreDetails =
  sd_energy :: rat
  sd_tempo :: rat
  sd_danceability :: rat
  sd_acousticness :: rat
  sd_valence :: rat
  sd_instrumentalness :: rat
  sd_genre :: rat
  sd_mood :: rat

text \<open>
  A selected track: the track, its \<^verbatim>\<open>score\<close> (absent on the route's popularity branch,
  which returns the collected tracks as they are) and its \<^verbatim>\<open>scoreDetails\<close>.
\<close>

record ScoredTrack =
  track :: Track
  score :: "rat option"
  scoreDetails :: "ScoreDetails option"

text \<open>
  \<^verbatim>\<open>xs.sort((a, b) => key(b) - key(a))\<close>: the array sort of the runtime is stable, so the
  result is the stable sort by descending key.
\<close>

definition sortDescBy :: "('a \<Rightarrow> 'k::{linorder,uminus}) \<Rightarrow> 'a list \<Rightarrow> 'a list" where
  "sortDescBy key xs = sort_key (\<lambda>x. - key x) xs"

definition rangeIdeal :: "rat \<times> rat \<Rightarrow> rat" where
  "rangeIdeal r = (fst r + snd r) / 2"

definition energyScore :: "PromptAnalysis \<Rightarrow> AudioFeatures \<Rightarrow> rat" where
  "energyScore analysis f =
     (let energyIdeal = rangeIdeal (energy_range analysis);
          energyDistance = \<bar>energy f - energyIdeal\<bar>
      in 10 * (1 - energyDistance))"

definition tempoScore :: "PromptAnalysis \<Rightarrow> AudioFeatures \<Rightarrow> rat" where
  "tempoScore analysis f =
     (let tempoIdeal = rangeIdeal (tempo_range analysis);
          tempoDistance = \<bar>tempo f - tempoIdeal\<bar> / 200
      in 10 * (1 - min 1 tempoDistance))"

definition danceabilityScore :: "PromptAnalysis \<Rightarrow> AudioFeatures \<Rightarrow> rat" where
  "danceabilityScore analysis f =
     (let danceabilityIdeal = rangeIdeal (danceability_range analysis);
          danceabilityDistance = \<bar>danceability f - danceabilityIdeal\<bar>
      in 10 * (1 - danceabilityDistance))"

definition acousticnessScore :: "PromptAnalysis \<Rightarrow> AudioFeatures \<Rightarrow> rat" where
  "acousticnessScore analysis f =
     (let acousticnessIdeal = rangeIdeal (acousticness_range analysis);
          acousticnessDistance = \<bar>acousticness f - acousticnessIdeal\<bar>
      in 10 * (1 - acousticnessDistance))"

definition valenceScore :: "PromptAnalysis \<Rightarrow> AudioFeatures \<Rightarrow> rat" where
  "valenceScore analysis f =
     (let valenceIdeal = rangeIdeal (valence_range analysis);
          valenceDistance = \<bar>valence f - valenceIdeal\<bar>
      in 10 * (1 - valenceDistance))"

definition instrumentalnessScore :: "PromptAnalysis \<Rightarrow> AudioFeatures \<Rightarrow> rat" where
  "instrumentalnessScore analysis f =
     (let instrumentalnessIdeal = rangeIdeal (instrumentalness_range analysis);
          instrumentalnessDistance = \<bar>instrumentalness f - instrumentalnessIdeal\<bar>
      in 10 * (1 - instrumentalnessDistance))"

text \<open>The weighting chain on the lower-cased \<^verbatim>\<open>filter_logic\<close>, branch by branch.\<close>

definition featureScore :: "PromptAnalysis \<Rightarrow> AudioFeatures \<Rightarrow> rat" where
  "featureScore analysis f =
     (let filterLogic = toLowerCase (filter_logic analysis);
          energyS = energyScore analysis f;
          tempoS = tempoScore analysis f;
          danceabilityS = danceabilityScore analysis f;
          acousticnessS = acousticnessScore analysis f;
          valenceS = valenceScore analysis f;
          instrumentalnessS = instrumentalnessScore analysis f
      in if js_includes filterLogic ''energy'' then
           energyS * 3 + tempoS * 1.5
             + (danceabilityS + valenceS + acousticnessS + instrumentalnessS)
         else if js_includes filterLogic ''tempo'' \<or> js_includes filterLogic ''bpm'' then
           tempoS * 3 + energyS * 1.5
             + (danceabilityS + valenceS + acousticnessS + instrumentalnessS)
         else if js_includes filterLogic ''dance'' then
           danceabilityS * 3 + energyS * 1.5
             + (tempoS + valenceS + acousticnessS + instrumentalnessS)
         else if js_includes filterLogic ''acoustic'' then
           acousticnessS * 3 + valenceS * 1.5
             + (energyS + tempoS + danceabilityS + instrumentalnessS)
         else if js_includes filterLogic ''instrument'' then
           instrumentalnessS * 3 + acousticnessS * 1.5
             + (energyS + tempoS + danceabilityS + valenceS)
         else if js_includes filterLogic ''valence'' \<or> js_includes filterLogic ''happ'' then
           valenceS * 3 + energyS * 1.5
             + (tempoS + danceabilityS + acousticnessS + instrumentalnessS)
         else
           energyS + tempoS + danceabilityS + valenceS + acousticnessS + instrumentalnessS)"

text \<open>
  The genre score. \<^verbatim>\<open>promptGenres.forEach\<close> adds 3 for each prompt genre in the set of
  the track's lower-cased genres; only when that sum is 0 the nested \<^verbatim>\<open>forEach\<close> loops add
  1.5 for each pair of a track genre and a prompt genre of which one contains the other;
  the sum is capped at 15.
\<close>

definition exactGenreScore :: "string list \<Rightarrow> string list \<Rightarrow> rat" where
  "exactGenreScore trackGenres promptGenres =
     foldl (\<lambda>genreScore genre. if genre \<in> set trackGenres then genreScore + 3 else genreScore)
       0 promptGenres"

definition partialGenreScore :: "string list \<Rightarrow> string list \<Rightarrow> rat" where
  "partialGenreScore extracted promptGenres =
     foldl (\<lambda>genreScore trackGenre.
              foldl (\<lambda>genreScore promptGenre.
                       if js_includes (toLowerCase trackGenre) promptGenre
                          \<or> js_includes promptGenre (toLowerCase trackGenre)
                       then genreScore + 1.5 else genreScore)
                genreScore promptGenres)
       0 extracted"

definition genreScore :: "PromptAnalysis \<Rightarrow> Track \<Rightarrow> rat" where
  "genreScore analysis t =
     (case extractedGenres t of
        None \<Rightarrow> 0
      | Some extracted \<Rightarrow>
          if length (genres analysis) > 0 then
            (let trackGenres = map toLowerCase extracted;
                 promptGenres = map toLowerCase (genres analysis);
                 exact = exactGenreScore trackGenres promptGenres;
                 total = (if exact = 0 then partialGenreScore extracted promptGenres else exact)
             in min 15 total)
          else 0)"

definition popularityScore :: "Track \<Rightarrow> rat" where
  "popularityScore t = of_nat (popularity t) / 10"

definition trackScore :: "PromptAnalysis \<Rightarrow> Track \<Rightarrow> rat" where
  "trackScore analysis t =
     (let score0 = (case features t of None \<Rightarrow> 0 | Some f \<Rightarrow> featureScore analysis f);
          score1 = score0 + popularityScore t;
          score2 = score1 + genreScore analysis t
      in if features t = None \<and> popularity t > 70 then score2 + 20 else score2)"

definition trackScoreDetails :: "PromptAnalysis \<Rightarrow> Track \<Rightarrow> ScoreDetails option" where
  "trackScoreDetails analysis t =
     (case features t of
        None \<Rightarrow> None
      | Some f \<Rightarrow>
          Some \<lparr>sd_energy = energyScore analysis f, sd_tempo = tempoScore analysis f,
                sd_danceability = danceabilityScore analysis f,
                sd_acousticness = acousticnessScore analysis f,
                sd_valence = valenceScore analysis f,
                sd_instrumentalness = instrumentalnessScore analysis f,
                sd_genre = (if extractedGenres t \<noteq> None \<and> length (genres analysis) > 0
                            then genreScore analysis t else 0),
                sd_mood = 0\<rparr>)"

text \<open>The callback of \<^verbatim>\<open>candidateTracks.map\<close>.\<close>

definition scoreTrack :: "PromptAnalysis \<Rightarrow> Track \<Rightarrow> ScoredTrack" where
  "scoreTrack analysis t =
     \<lparr>track = t, score = Some (trackScore analysis t),
      scoreDetails = trackScoreDetails analysis t\<rparr>"

definition scoreOf :: "ScoredTrack \<Rightarrow> rat" where
  "scoreOf s = (case score s of None \<Rightarrow> 0 | Some v \<Rightarrow> v)"

definition candidateTracks :: "Track list \<Rightarrow> nat \<Rightarrow> Track list" where
  "candidateTracks tracks maxTracks =
     (let tracksWithAudioFeatures = filter (\<lambda>t. features t \<noteq> None) tracks
      in if length tracksWithAudioFeatures < maxTracks * 2 then
           (let tracksWithoutFeatures =
                  take (maxTracks * 3)
                    (sortDescBy (\<lambda>t. int (popularity t))
                       (filter (\<lambda>t. features t = None) tracks))
            in tracksWithAudioFeatures @ tracksWithoutFeatures)
         else tracksWithAudioFeatures)"

definition filterTracksByAIAnalysis ::
  "Track list \<Rightarrow> PromptAnalysis \<Rightarrow> nat \<Rightarrow> ScoredTrack list" where
  "filterTracksByAIAnalysis tracks analysis maxTracks =
     (let scoredTracks =
            sortDescBy scoreOf (map (scoreTrack analysis) (candidateTracks tracks maxTracks));
          selectedTracks = take maxTracks scoredTracks
      in selectedTracks)"

text \<open>
  Step 6 of the \<^verbatim>\<open>/generate-playlist\<close> route: the scorer runs only when some enriched
  track has features; otherwise the route itself sorts the collected tracks by popularity.
\<close>

definition selectTracks ::
  "Track list \<Rightarrow> Track list \<Rightarrow> PromptAnalysis \<Rightarrow> nat \<Rightarrow> ScoredTrack list" where
  "selectTracks tracksWithFeatures collectedTracks promptAnalysis targetTrackCount =
     (if list_ex (\<lambda>t. features t \<noteq> None) tracksWithFeatures then
        filterTracksByAIAnalysis tracksWithFeatures promptAnalysis targetTrackCount
      else
        map (\<lambda>t. \<lparr>track = t, score = None, scoreDetails = None\<rparr>)
          (take targetTrackCount (sortDescBy (\<lambda>t. int (popularity t)) collectedTracks)))"










definition example_track :: "string \<Rightarrow> nat \<Rightarrow> string list option \<Rightarrow> Track" where
  "example_track i p g =
     \<lparr>track_id = i, track_name = i, uri = ''spotify:track:'' @ i, popularity = p,
      features = None, extractedGenres = g\<rparr>"


section \<open>Fetchers and the collector\<close>

text \<open>
  The external catalogue, as the fetch helpers see it for an access token. Each field is
  what the helper returns after its own error handling (\<^verbatim>\<open>fetchLimitedItems\<close> returns the
  empty array on an error, \<^verbatim>\<open>fetchAllPages\<close> the pages read so far):
  \<^item> \<open>likedPage\<close>: the tracks of \<^verbatim>\<open>fetchLimitedItems(token, '/me/tracks', 50)\<close>;
  \<^item> \<open>likedAll\<close>: the tracks of \<^verbatim>\<open>fetchAllPages(token, '/me/tracks?limit=50', delay)\<close>;
  \<^item> \<open>topTracks\<close>: \<^verbatim>\<open>fetchLimitedItems(token, '/me/top/tracks?time_range=r', 50)\<close>;
  \<^item> \<open>playlistPage\<close>: the \<^verbatim>\<open>item.track\<close> values of the limited read of a playlist, \<open>None\<close>
    for a \<^verbatim>\<open>null\<close> track;
  \<^item> \<open>playlistAll\<close>: the \<^verbatim>\<open>item.track\<close> values of all pages of a playlist;
  \<^item> \<open>recommendations\<close>: what the recommendations endpoint behind
    \<^verbatim>\<open>getRecommendations\<close> answers.
\<close>

record Catalogue =
  likedPage :: "string \<Rightarrow> Track list"
  likedAll :: "string \<Rightarrow> nat \<Rightarrow> Track list"
  topTracks :: "string \<Rightarrow> string \<Rightarrow> Track list"
  playlistPage :: "string \<Rightarrow> string \<Rightarrow> nat \<Rightarrow> Track option list"
  playlistAll :: "string \<Rightarrow> string \<Rightarrow> nat \<Rightarrow> Track option list"
  recommendations :: "string \<Rightarrow> Track list"

text \<open>
  \<^verbatim>\<open>new Map(entries)\<close> and \<^verbatim>\<open>map.values()\<close>: a map keeps its keys in the order of their
  first insertion; setting a key that is present replaces its value in place.
\<close>

fun mapSet :: "('k \<times> 'v) list \<Rightarrow> 'k \<Rightarrow> 'v \<Rightarrow> ('k \<times> 'v) list" where
  "mapSet [] k v = [(k, v)]"
| "mapSet ((k', v') # m) k v = (if k' = k then (k', v) # m else (k', v') # mapSet m k v)"

definition newMap :: "('k \<times> 'v) list \<Rightarrow> ('k \<times> 'v) list" where
  "newMap entries = foldl (\<lambda>m (k, v). mapSet m k v) [] entries"

text \<open>\<^verbatim>\<open>Array.from(new Map(tracks.map((track) => [track.id, track])).values())\<close>.\<close>

definition uniqueById :: "Track list \<Rightarrow> Track list" where
  "uniqueById tracks = map snd (newMap (map (\<lambda>t. (track_id t, t)) tracks))"

definition nonNull :: "'a option list \<Rightarrow> 'a list" where
  "nonNull xs = List.map_filter (\<lambda>x. x) xs"

definition fetchLikedSongs :: "Catalogue \<Rightarrow> string \<Rightarrow> ProcessingConfig \<Rightarrow> Track list" where
  "fetchLikedSongs api accessToken config =
     (if fetchAllPages config then likedAll api accessToken (requestDelay config)
      else likedPage api accessToken)"

definition fetchTopTracks :: "Catalogue \<Rightarrow> string \<Rightarrow> ProcessingConfig \<Rightarrow> Track list" where
  "fetchTopTracks api accessToken config =
     (let timeRanges = [''short_term'', ''medium_term'', ''long_term''];
          allTopTracks = foldl (\<lambda>acc timeRange. acc @ topTracks api accessToken timeRange)
                           [] timeRanges
      in uniqueById allTopTracks)"

definition fetchPlaylistTracks ::
  "Catalogue \<Rightarrow> string \<Rightarrow> string \<Rightarrow> ProcessingConfig \<Rightarrow> Track list" where
  "fetchPlaylistTracks api accessToken playlistId config =
     (let tracks =
            (if fetchAllPages config then
               nonNull (playlistAll api accessToken playlistId (requestDelay config))
             else
               (let limit = (if maxTracksPerPlaylist config = 0 then 100
                             else maxTracksPerPlaylist config)
                in nonNull (playlistPage api accessToken playlistId limit)))
      in if maxTracksPerPlaylist config > 0 \<and> length tracks > maxTracksPerPlaylist config
         then take (maxTracksPerPlaylist config) tracks
         else tracks)"

text \<open>
  Progress reports. The optional callback acts on the state of whoever observes the
  collection; \<open>None\<close> is the absent callback.
\<close>

record ProcessingProgress =
  stage :: string
  progress :: nat
  message :: string
  remainingTimeEstimate :: rat

type_synonym 'o callback = "(ProcessingProgress \<Rightarrow> 'o \<Rightarrow> 'o) option"

definition report :: "'o callback \<Rightarrow> ProcessingProgress \<Rightarrow> 'o \<Rightarrow> 'o" where
  "report cb p obs = (case cb of None \<Rightarrow> obs | Some f \<Rightarrow> f p obs)"

text \<open>Decimal digits of a number, for the interpolated progress message.\<close>

fun showNat :: "nat \<Rightarrow> string" where
  "showNat n =
     (if n < 10 then [char_of (48 + n)]
      else showNat (n div 10) @ [char_of (48 + n mod 10)])"

text \<open>
  The loop of \<^verbatim>\<open>fetchSelectedPlaylistTracks\<close> over the first \<open>maxPlaylists\<close> ids. The
  percentage \<^verbatim>\<open>Math.round(((i + 1) / n) * 100)\<close> is computed in double arithmetic; it is
  taken as the parameter \<open>percent (i + 1) n\<close>.
\<close>

fun playlistLoop ::
  "Catalogue \<Rightarrow> string \<Rightarrow> ProcessingConfig \<Rightarrow> (nat \<Rightarrow> nat \<Rightarrow> nat) \<Rightarrow> (nat \<Rightarrow> 'o \<Rightarrow> 'o) \<Rightarrow>
   nat \<Rightarrow> nat \<Rightarrow> string list \<Rightarrow> Track list \<times> 'o \<Rightarrow> Track list \<times> 'o" where
  "playlistLoop api accessToken config percent progressCallback n i [] st = st"
| "playlistLoop api accessToken config percent progressCallback n i (playlistId # rest)
     (allTracks, obs) =
     playlistLoop api accessToken config percent progressCallback n (i + 1) rest
       (allTracks @ fetchPlaylistTracks api accessToken playlistId config,
        progressCallback (percent (i + 1) n) obs)"

definition fetchSelectedPlaylistTracks ::
  "Catalogue \<Rightarrow> string \<Rightarrow> string list \<Rightarrow> ProcessingConfig \<Rightarrow> (nat \<Rightarrow> nat \<Rightarrow> nat) \<Rightarrow>
   (nat \<Rightarrow> 'o \<Rightarrow> 'o) \<Rightarrow> 'o \<Rightarrow> Track list \<times> 'o" where
  "fetchSelectedPlaylistTracks api accessToken playlistIds config percent progressCallback obs =
     (let limitedPlaylistIds = take (maxPlaylists config) playlistIds;
          (allTracks, obs') =
             playlistLoop api accessToken config percent progressCallback
               (length limitedPlaylistIds) 0 limitedPlaylistIds ([], obs)
      in (uniqueById allTracks, obs'))"

text \<open>
  The state of \<^verbatim>\<open>collectTracks\<close>: the tracks gathered so far, the current progress record
  and the observer's state. \<^verbatim>\<open>updateProgress\<close> lowers the remaining time by 5, not below 5,
  and reports.
\<close>

record 'o CollectState =
  allTracks :: "Track list"
  currentProgress :: ProcessingProgress
  observer :: 'o

definition updateProgress ::
  "'o callback \<Rightarrow> string \<Rightarrow> nat \<Rightarrow> string \<Rightarrow> 'o CollectState \<Rightarrow> 'o CollectState" where
  "updateProgress cb stg prog msg st =
     (let p = \<lparr>stage = stg, progress = prog, message = msg,
               remainingTimeEstimate =
                 max 5 (remainingTimeEstimate (currentProgress st) - 5)\<rparr>
      in st\<lparr>currentProgress := p, observer := report cb p (observer st)\<rparr>)"

definition initialCollectState :: "'o \<Rightarrow> 'o CollectState" where
  "initialCollectState obs =
     \<lparr>allTracks = [],
      currentProgress = \<lparr>stage = ''collecting'', progress = 0,
        message = ''Starting track collection...'', remainingTimeEstimate = 60\<rparr>,
      observer = obs\<rparr>"

definition collectLikedSongs ::
  "Catalogue \<Rightarrow> string \<Rightarrow> PlaylistSources \<Rightarrow> ProcessingConfig \<Rightarrow> 'o callback \<Rightarrow>
   'o CollectState \<Rightarrow> 'o CollectState" where
  "collectLikedSongs api accessToken sources config cb st =
     (if useLikedSongs sources then
        (let st1 = updateProgress cb ''collecting'' 10 ''Fetching your liked songs...'' st;
             likedSongs = fetchLikedSongs api accessToken config
         in st1\<lparr>allTracks := allTracks st1 @ likedSongs\<rparr>)
      else st)"

definition collectTopTracks ::
  "Catalogue \<Rightarrow> string \<Rightarrow> PlaylistSources \<Rightarrow> ProcessingConfig \<Rightarrow> 'o callback \<Rightarrow>
   'o CollectState \<Rightarrow> 'o CollectState" where
  "collectTopTracks api accessToken sources config cb st =
     (if useTopTracks sources then
        (let st1 = updateProgress cb ''collecting'' 30 ''Fetching your top tracks...'' st;
             top = fetchTopTracks api accessToken config
         in st1\<lparr>allTracks := allTracks st1 @ top\<rparr>)
      else st)"

text \<open>
  Step 3. The callback handed to \<^verbatim>\<open>fetchSelectedPlaylistTracks\<close> calls \<^verbatim>\<open>updateProgress\<close>,
  so the whole collector state is what that loop threads.
\<close>

definition collectPlaylists ::
  "Catalogue \<Rightarrow> string \<Rightarrow> PlaylistSources \<Rightarrow> ProcessingConfig \<Rightarrow> (nat \<Rightarrow> nat \<Rightarrow> nat) \<Rightarrow>
   'o callback \<Rightarrow> 'o CollectState \<Rightarrow> 'o CollectState" where
  "collectPlaylists api accessToken sources config percent cb st =
     (if length (playlists sources) > 0 then
        (let st1 = updateProgress cb ''collecting'' 40
                     ''Fetching tracks from your playlists...'' st;
             playlistTracksProgress =
               (\<lambda>prog. updateProgress cb ''collecting'' (40 + (2 * prog) div 5)
                          (''Fetching playlist tracks: '' @ showNat prog @ ''% complete''));
             (playlistTracks, st2) =
               fetchSelectedPlaylistTracks api accessToken (playlists sources) config percent
                 playlistTracksProgress st1
         in st2\<lparr>allTracks := allTracks st2 @ playlistTracks\<rparr>)
      else st)"

definition gatherSources ::
  "Catalogue \<Rightarrow> string \<Rightarrow> PlaylistSources \<Rightarrow> ProcessingConfig \<Rightarrow> (nat \<Rightarrow> nat \<Rightarrow> nat) \<Rightarrow>
   'o callback \<Rightarrow> 'o \<Rightarrow> 'o CollectState" where
  "gatherSources api accessToken sources config percent cb obs =
     collectPlaylists api accessToken sources config percent cb
       (collectTopTracks api accessToken sources config cb
          (collectLikedSongs api accessToken sources config cb (initialCollectState obs)))"

definition collectTracks ::
  "Catalogue \<Rightarrow> (nat \<Rightarrow> nat \<Rightarrow> nat) \<Rightarrow> string \<Rightarrow> PlaylistSources \<Rightarrow> ProcessingMode \<Rightarrow>
   'o callback \<Rightarrow> 'o \<Rightarrow> Track list \<times> 'o" where
  "collectTracks api percent accessToken sources processingMode cb obs =
     (let config = PROCESSING_CONFIGS processingMode;
          st3 = gatherSources api accessToken sources config percent cb obs;
          st4 = updateProgress cb ''processing'' 85 ''Removing duplicate tracks...'' st3;
          uniqueTracks = uniqueById (allTracks st4);
          (resultTracks, st5) =
            (if targetPoolSize config > 0 \<and> length uniqueTracks > targetPoolSize config
             then (take (targetPoolSize config) uniqueTracks,
                   updateProgress cb ''processing'' 90
                     ''Sampling tracks to optimal size...'' st4)
             else (uniqueTracks, st4));
          st6 = updateProgress cb ''complete'' 100 ''Track collection complete'' st5
      in (resultTracks, observer st6))"

declare showNat.simps [simp del]

text \<open>
  The tracks of the selected sources in the collector's order: liked songs, then top
  tracks, then the tracks of the selected playlists.
\<close>

definition selectedPlaylistTracks ::
  "Catalogue \<Rightarrow> string \<Rightarrow> string list \<Rightarrow> ProcessingConfig \<Rightarrow> Track list" where
  "selectedPlaylistTracks api accessToken ids config =
     uniqueById (concat (map (\<lambda>pid. fetchPlaylistTracks api accessToken pid config)
                          (take (maxPlaylists config) ids)))"

definition gatheredTracks ::
  "Catalogue \<Rightarrow> string \<Rightarrow> PlaylistSources \<Rightarrow> ProcessingConfig \<Rightarrow> Track list" where
  "gatheredTracks api accessToken sources config =
     (if useLikedSongs sources then fetchLikedSongs api accessToken config else [])
     @ (if useTopTracks sources then fetchTopTracks api accessToken config else [])
     @ (if playlists sources \<noteq> []
        then selectedPlaylistTracks api accessToken (playlists sources) config else [])"

text \<open>
  A catalogue in which the track \<open>x\<close> is both a liked song and in the playlist \<open>p\<close>, with
  different data in the two places.
\<close>

definition example_catalogue :: Catalogue where
  "example_catalogue =
     \<lparr>likedPage = (\<lambda>tok. [(example_track ''x'' 10 None)\<lparr>track_name := ''x as liked''\<rparr>,
                           example_track ''y'' 20 None]),
      likedAll = (\<lambda>tok delay. []),
      topTracks = (\<lambda>tok r. []),
      playlistPage = (\<lambda>tok pid limit.
         if pid = ''p''
         then [Some ((example_track ''x'' 10 None)\<lparr>track_name := ''x in playlist''\<rparr>), None,
               Some (example_track ''z'' 30 None)]
         else []),
      playlistAll = (\<lambda>tok pid delay. []),
      recommendations = (\<lambda>tok. [])\<rparr>"

definition example_sources :: PlaylistSources where
  "example_sources =
     \<lparr>useLikedSongs = True, useTopTracks = False, useRecommendations = False,
      playlists = [''p'']\<rparr>"

definition example_percent :: "nat \<Rightarrow> nat \<Rightarrow> nat" where
  "example_percent i n = (i * 100) div n"

section \<open>The progress tracker\<close>

text \<open>
  An entry of \<^verbatim>\<open>playlistProgressMap\<close>: the four progress fields, the processing mode as the
  string it is stored as, and the start time in milliseconds.
\<close>

record StoredProgress = ProcessingProgress +
  processingMode :: string
  startTime :: nat

type_synonym ProgressMap = "string \<rightharpoonup> StoredProgress"

fun getEstimatedTimeForMode :: "string \<Rightarrow> rat" where
  "getEstimatedTimeForMode m =
     (if m = ''quick'' then 30
      else if m = ''standard'' then 60
      else if m = ''comprehensive'' then 120
      else if m = ''complete'' then 300
      else 60)"

text \<open>
  \<^verbatim>\<open>updatePlaylistProgress\<close>; \<open>now\<close> is the value of \<^verbatim>\<open>Date.now()\<close>, read only when the key has
  no entry yet.
\<close>

definition updatePlaylistProgress ::
  "nat \<Rightarrow> string \<Rightarrow> string \<Rightarrow> nat \<Rightarrow> string \<Rightarrow> string \<Rightarrow> ProgressMap \<Rightarrow> ProgressMap" where
  "updatePlaylistProgress now playlistId stg prog msg mode progressMap =
     (let existing =
            (case progressMap playlistId of
               Some e \<Rightarrow> e
             | None \<Rightarrow>
                 \<lparr>stage = ''initializing'', progress = 0,
                  message = ''Starting playlist generation...'',
                  remainingTimeEstimate = getEstimatedTimeForMode mode,
                  processingMode = mode, startTime = now\<rparr>)
      in progressMap(playlistId \<mapsto>
           existing\<lparr>stage := stg, progress := prog, message := msg, processingMode := mode\<rparr>))"

text \<open>
  The responses of \<^verbatim>\<open>GET /api/ai/generate-playlist/progress\<close>: the 400 answer of the guard
  on the query parameter, the 200 answer with the progress object (for a stored entry the
  object also carries the entry's mode and start time), and the 500 answer of the
  \<^verbatim>\<open>catch\<close> block.
\<close>

datatype ProgressResponse =
    BadRequest string
  | ProgressFound StoredProgress
  | ProgressDefault ProcessingProgress
  | ProgressFailed string

text \<open>
  The handler. The query parameter is \<open>None\<close> when it is absent; the guard
  \<^verbatim>\<open>!playlistId\<close> also rejects the empty string. \<open>now\<close> is \<^verbatim>\<open>Date.now()\<close>. No operation
  of the \<^verbatim>\<open>try\<close> block can throw, so the model has no branch into \<open>ProgressFailed\<close>.
\<close>

definition getProgress :: "nat \<Rightarrow> ProgressMap \<Rightarrow> string option \<Rightarrow> ProgressResponse" where
  "getProgress now progressMap playlistId =
     (case playlistId of
        None \<Rightarrow> BadRequest ''Missing playlistId parameter''
      | Some key \<Rightarrow>
          if key = [] then BadRequest ''Missing playlistId parameter''
          else
            (case progressMap key of
               None \<Rightarrow>
                 ProgressDefault
                   \<lparr>stage = ''initializing'', progress = 5,
                    message = ''Initializing playlist generation...'',
                    remainingTimeEstimate = 60\<rparr>
             | Some p \<Rightarrow>
                 (let elapsedSeconds = (of_int (int now - int (startTime p)) :: rat) / 1000;
                      totalEstimate = getEstimatedTimeForMode (processingMode p);
                      remainingEstimate0 = max 0 (totalEstimate - elapsedSeconds);
                      remainingEstimate =
                        (if progress p < 20
                         then max remainingEstimate0 (totalEstimate * 0.8)
                         else remainingEstimate0)
                  in ProgressFound (p\<lparr>remainingTimeEstimate := remainingEstimate\<rparr>))))"

definition example_entry :: StoredProgress where
  "example_entry =
     \<lparr>stage = ''collecting'', progress = 10, message = ''Fetching your liked songs...'',
      remainingTimeEstimate = 30, processingMode = ''quick'', startTime = 1000\<rparr>"

section \<open>The prompt analyzer\<close>

text \<open>
  JSON values of the fields of the model's answer: scalars and arrays. An object-valued
  field is outside the analysis contract and is not modelled.
\<close>

datatype json = JNull | JBool bool | JNum rat | JStr string | JArr "json list"









section \<open>The generate-playlist route\<close>

text \<open>
  The request after destructuring with its defaults, and the two values the
  authentication middleware stores on it.
\<close>

record GenerateRequest =
  req_prompt :: string
  req_name :: "string option"
  req_description :: "string option"
  req_sources :: PlaylistSources
  req_processingMode :: ProcessingMode
  req_targetTrackCount :: nat
  req_accessToken :: "string option"
  req_userId :: "string option"

text \<open>
  The outcomes of the external calls of one request.
  \<^item> Playlist creation: the request throws; it is answered with a status that is not ok
    (with or without a JSON body); it is answered ok with an unreadable body; or it is
    answered ok with the new playlist's id.
  \<^item> Bulk audio features of a batch: the request or the reading of its body throws; the
    status is not ok; the body has no \<^verbatim>\<open>audio_features\<close> array; or the array of features
    (\<open>None\<close> for a \<^verbatim>\<open>null\<close> entry), each with the id of its track.
  \<^item> Audio features of one track: the call throws, is not ok, or gives the features.
  \<^item> Appending the tracks: the request throws; it is answered with a status that is not ok
    (with or without a JSON body); or it is answered ok.
\<close>

datatype CreateOutcome =
    CreateThrows
  | CreateRefused nat bool
  | CreateUnreadable
  | CreateOk string

datatype BulkOutcome =
    BulkThrows
  | BulkNotOk
  | BulkInvalid
  | BulkOk "(string \<times> AudioFeatures) option list"

datatype SingleOutcome = SingleThrows | SingleNotOk | SingleOk AudioFeatures

datatype AddOutcome = AddThrows | AddRefused bool | AddOk

text \<open>
  Everything outside the route: the catalogue, the double-arithmetic percentage of the
  collector, the clock, the playlist sizes read for the estimate (empty when that read
  fails), the analysis that \<^verbatim>\<open>analyzePlaylistPrompt\<close> returns (taken at the types of the
  analysis contract), the genre seeds that \<^verbatim>\<open>getAvailableGenreSeeds\<close> returns, and the
  outcomes above; \<open>w_saveRecord\<close> tells whether \<^verbatim>\<open>Playlist.create\<close> succeeds.
\<close>

record World =
  w_catalogue :: Catalogue
  w_percent :: "nat \<Rightarrow> nat \<Rightarrow> nat"
  w_clock :: nat
  w_playlistSizes :: "string \<rightharpoonup> nat"
  w_analysis :: PromptAnalysis
  w_genreSeeds :: "string list"
  w_createPlaylist :: CreateOutcome
  w_audioFeaturesBulk :: "string list \<Rightarrow> BulkOutcome"
  w_audioFeaturesSingle :: "string \<Rightarrow> SingleOutcome"
  w_addTracks :: "string \<Rightarrow> string list \<Rightarrow> AddOutcome"
  w_saveRecord :: bool

text \<open>Step 5: audio features in batches of 50.\<close>

fun batchesOf50 :: "'a list \<Rightarrow> 'a list list" where
  "batchesOf50 xs = (if xs = [] then [] else take 50 xs # batchesOf50 (drop 50 xs))"

declare batchesOf50.simps [simp del]

definition joinIds :: "string list \<Rightarrow> string" where
  "joinIds ids = (case ids of [] \<Rightarrow> [] | i # rest \<Rightarrow> i @ concat (map (\<lambda>j. '','' @ j) rest))"

definition findFeatures :: "(string \<times> AudioFeatures) option list \<Rightarrow> string \<Rightarrow> AudioFeatures option" where
  "findFeatures fs tid =
     map_option snd (find (\<lambda>(i, f). i = tid) (List.map_filter (\<lambda>x. x) fs))"

definition singleFeatures :: "World \<Rightarrow> Track \<Rightarrow> Track" where
  "singleFeatures w t =
     (case w_audioFeaturesSingle w (track_id t) of
        SingleOk f \<Rightarrow> t\<lparr>features := Some f\<rparr>
      | SingleNotOk \<Rightarrow> t\<lparr>features := None\<rparr>
      | SingleThrows \<Rightarrow> t\<lparr>features := None\<rparr>)"

text \<open>The batch loop; \<open>None\<close> is an exception that leaves the loop for the \<^verbatim>\<open>catch\<close>.\<close>

fun featureBatches :: "World \<Rightarrow> Track list list \<Rightarrow> Track list \<Rightarrow> Track list option" where
  "featureBatches w [] tracksWithFeatures = Some tracksWithFeatures"
| "featureBatches w (trackBatch # rest) tracksWithFeatures =
     (let trackIds = joinIds (map track_id trackBatch)
      in if trackIds = [] then featureBatches w rest tracksWithFeatures
         else
           (case w_audioFeaturesBulk w (map track_id trackBatch) of
              BulkThrows \<Rightarrow> None
            | BulkInvalid \<Rightarrow> featureBatches w rest tracksWithFeatures
            | BulkOk fs \<Rightarrow>
                featureBatches w rest
                  (tracksWithFeatures
                   @ map (\<lambda>t. t\<lparr>features := findFeatures fs (track_id t)\<rparr>) trackBatch)
            | BulkNotOk \<Rightarrow>
                featureBatches w rest
                  (tracksWithFeatures @ map (singleFeatures w) trackBatch)))"

definition enrichFeatures :: "World \<Rightarrow> Track list \<Rightarrow> Track list" where
  "enrichFeatures w collectedTracks =
     (case (if length collectedTracks = 0 then Some []
            else featureBatches w (batchesOf50 collectedTracks) []) of
        Some tracksWithFeatures \<Rightarrow> tracksWithFeatures
      | None \<Rightarrow> map (\<lambda>t. t\<lparr>features := None\<rparr>) collectedTracks)"

text \<open>
  The answers of the route, and what it leaves behind: the progress map, the messages of
  \<^verbatim>\<open>console.error\<close>, the uris appended to the created playlist, and whether the local
  record was saved.
\<close>

record PlaylistBody =
  pl_id :: string
  pl_name :: string
  pl_description :: string
  pl_tracks :: "ScoredTrack list"
  pl_genresUsed :: "string option list"
  pl_mode :: ProcessingMode
  pl_tracksAnalyzed :: nat
  pl_tracksSelected :: nat
  pl_estimatedSeconds :: int
  pl_audioFeaturesAvailable :: bool

datatype RouteResponse =
    PromptRequired
  | AuthenticationRequired
  | CreateFailed nat
  | GenerationFailed
  | Created PlaylistBody

record RouteEffects =
  fx_progress :: ProgressMap
  fx_errors :: "string list"
  fx_appended :: "string list"
  fx_saved :: bool

definition playlistTitle :: "GenerateRequest \<Rightarrow> string" where
  "playlistTitle req =
     (case req_name req of
        None \<Rightarrow> ''AI Playlist''
      | Some n \<Rightarrow> if n = [] then ''AI Playlist'' else n)"

definition playlistDesc :: "GenerateRequest \<Rightarrow> PromptAnalysis \<Rightarrow> string" where
  "playlistDesc req promptAnalysis =
     (let d0 =
            (case req_description req of
               Some d \<Rightarrow>
                 if d \<noteq> [] then take 250 d
                 else if description promptAnalysis \<noteq> []
                 then take 250 (description promptAnalysis)
                 else ''AI-generated playlist based on your prompt.''
             | None \<Rightarrow>
                 if description promptAnalysis \<noteq> []
                 then take 250 (description promptAnalysis)
                 else ''AI-generated playlist based on your prompt.'')
      in if length d0 > 250 then take 250 d0 else d0)"

fun modeName :: "ProcessingMode \<Rightarrow> string" where
  "modeName quick = ''quick''"
| "modeName standard = ''standard''"
| "modeName comprehensive = ''comprehensive''"
| "modeName complete = ''complete''"

text \<open>
  Steps 4 to 6 for the created playlist \<open>pid\<close>: collection, with the progress callback
  that updates the tracker, then the features and the selection.
\<close>

definition routeCollect ::
  "World \<Rightarrow> GenerateRequest \<Rightarrow> string \<Rightarrow> string \<Rightarrow> ProgressMap \<Rightarrow> Track list \<times> ProgressMap" where
  "routeCollect w req accessToken pid pm =
     collectTracks (w_catalogue w) (w_percent w) accessToken (req_sources req)
       (req_processingMode req)
       (Some (\<lambda>prog. updatePlaylistProgress (w_clock w) pid (stage prog) (progress prog)
                        (message prog) (modeName (req_processingMode req))))
       pm"

definition routeSelect :: "World \<Rightarrow> GenerateRequest \<Rightarrow> Track list \<Rightarrow> ScoredTrack list" where
  "routeSelect w req collectedTracks =
     selectTracks (enrichFeatures w collectedTracks) collectedTracks (w_analysis w)
       (req_targetTrackCount req)"

text \<open>
  Steps 7 to 9 and the answer. A request to append that throws, or a refusal whose body
  cannot be read as JSON, is an exception of the route's outer \<^verbatim>\<open>try\<close> block. A failed
  save of the local record is caught and logged. The tracks are catalogue track objects
  with their artists, so building the answer does not throw; the answer keeps the selected
  tracks and leaves the wording of their selection reasons out.
\<close>

definition routeFinish ::
  "World \<Rightarrow> GenerateRequest \<Rightarrow> string \<Rightarrow> int \<Rightarrow> string option list \<Rightarrow> Track list \<Rightarrow>
   ProgressMap \<Rightarrow> RouteResponse \<times> RouteEffects" where
  "routeFinish w req pid estimatedSecs matchedGenres collectedTracks pm =
     (let mode = modeName (req_processingMode req);
          upd = updatePlaylistProgress (w_clock w) pid;
          tracksWithFeatures = enrichFeatures w collectedTracks;
          pm8 = upd ''selecting'' 85 ''Selecting the best tracks for your playlist...'' mode
                  (upd ''processing'' 75 ''Analyzing audio features...'' mode pm);
          selectedTracks = routeSelect w req collectedTracks;
          pm9 = upd ''finalizing'' 90 ''Adding tracks to your playlist...'' mode pm8;
          trackUris = map (\<lambda>s. uri (track s)) selectedTracks;
          added = (if length selectedTracks > 0 then w_addTracks w pid trackUris else AddOk)
      in case added of
           AddThrows \<Rightarrow>
             (GenerationFailed,
              \<lparr>fx_progress = pm9, fx_errors = [''Error generating AI playlist:''],
               fx_appended = [], fx_saved = False\<rparr>)
         | AddRefused False \<Rightarrow>
             (GenerationFailed,
              \<lparr>fx_progress = pm9, fx_errors = [''Error generating AI playlist:''],
               fx_appended = [], fx_saved = False\<rparr>)
         | _ \<Rightarrow>
             (let errs1 = (if added = AddRefused True
                           then [''Failed to add tracks to playlist:''] else []);
                  appended = (if length selectedTracks > 0 \<and> added = AddOk
                              then trackUris else []);
                  pm10 = upd ''finalizing'' 95 ''Finalizing playlist...'' mode pm9;
                  errs2 = (if w_saveRecord w then errs1
                           else errs1 @ [''Failed to save playlist to database, continuing anyway'']);
                  pm11 = upd ''complete'' 100 ''Playlist created successfully!'' mode pm10
              in (Created
                    \<lparr>pl_id = pid, pl_name = playlistTitle req,
                     pl_description = playlistDesc req (w_analysis w),
                     pl_tracks = selectedTracks, pl_genresUsed = matchedGenres,
                     pl_mode = req_processingMode req,
                     pl_tracksAnalyzed = length tracksWithFeatures,
                     pl_tracksSelected = length selectedTracks,
                     pl_estimatedSeconds = estimatedSecs,
                     pl_audioFeaturesAvailable =
                       list_ex (\<lambda>t. features t \<noteq> None) tracksWithFeatures\<rparr>,
                  \<lparr>fx_progress = pm11, fx_errors = errs2, fx_appended = appended,
                   fx_saved = w_saveRecord w\<rparr>)))"

text \<open>The handler of \<^verbatim>\<open>POST /generate-playlist\<close>.\<close>

definition generatePlaylist ::
  "World \<Rightarrow> GenerateRequest \<Rightarrow> ProgressMap \<Rightarrow> RouteResponse \<times> RouteEffects" where
  "generatePlaylist w req pm =
     (let untouched = \<lparr>fx_progress = pm, fx_errors = [], fx_appended = [], fx_saved = False\<rparr>
      in if req_prompt req = [] then (PromptRequired, untouched)
         else
           (case (req_accessToken req, req_userId req) of
              (Some accessToken, Some userId) \<Rightarrow>
                if accessToken = [] \<or> userId = [] then (AuthenticationRequired, untouched)
                else
                  (let sources = req_sources req;
                       mode = modeName (req_processingMode req);
                       playlistSizes = (if length (playlists sources) > 0
                                        then w_playlistSizes w else Map.empty);
                       estimatedSecs = estimatedSeconds
                         (estimateProcessingTime sources (req_processingMode req) playlistSizes);
                       upd = updatePlaylistProgress (w_clock w) ''preparing'';
                       pm1 = upd ''analyzing'' 5 ''Analyzing prompt with AI...'' mode pm;
                       promptAnalysis = w_analysis w;
                       pm2 = upd ''analyzing'' 10 ''Matching genres...'' mode pm1;
                       matchedGenres =
                         matchGenresToAvailableSeeds (genres promptAnalysis) (w_genreSeeds w);
                       pm3 = upd ''creating'' 15 ''Creating playlist...'' mode pm2
                   in case w_createPlaylist w of
                        CreateThrows \<Rightarrow>
                          (GenerationFailed,
                           untouched\<lparr>fx_progress := pm3,
                             fx_errors := [''Error generating AI playlist:'']\<rparr>)
                      | CreateUnreadable \<Rightarrow>
                          (GenerationFailed,
                           untouched\<lparr>fx_progress := pm3,
                             fx_errors := [''Error generating AI playlist:'']\<rparr>)
                      | CreateRefused status readable \<Rightarrow>
                          if readable
                          then (CreateFailed status,
                                untouched\<lparr>fx_progress := pm3,
                                  fx_errors := [''Failed to create playlist:'']\<rparr>)
                          else (GenerationFailed,
                                untouched\<lparr>fx_progress := pm3,
                                  fx_errors := [''Error generating AI playlist:'']\<rparr>)
                      | CreateOk pid \<Rightarrow>
                          (let pm4 = (case pm3 ''preparing'' of
                                        Some tempProgress \<Rightarrow>
                                          (pm3(pid \<mapsto> tempProgress))(''preparing'' := None)
                                      | None \<Rightarrow> pm3);
                               pm5 = updatePlaylistProgress (w_clock w) pid ''collecting'' 20
                                       ''Collecting tracks from selected sources...'' mode pm4;
                               (collectedTracks, pm6) = routeCollect w req accessToken pid pm5
                           in routeFinish w req pid estimatedSecs matchedGenres
                                collectedTracks pm6))
            | _ \<Rightarrow> (AuthenticationRequired, untouched)))"






section \<open>Properties of the time estimator\<close>















section \<open>Properties of the genre resolver\<close>

lemma js_includes_sublist: "js_includes s sub \<longleftrightarrow> sublist sub s"
  by (induction s) (simp_all add: sublist_Cons_right)

lemma newSet_foldr: "foldr (\<lambda>x s. setAdd s x) ys [] = rev (remdups ys)"
  by (induction ys) (simp_all add: setAdd_def)

lemma newSet_dedupe: "newSet xs = dedupe xs"
  by (simp add: newSet_def dedupe_def foldl_conv_foldr newSet_foldr)

lemma partialMatches_lowered:
  "partialMatches av ai acc =
     acc @ concat (map (\<lambda>l. filter (\<lambda>a. sublist l (toLowerCase a) \<or> sublist (toLowerCase a) l) av)
                       (map toLowerCase ai))"
  by (induction ai arbitrary: acc) (simp_all add: Let_def js_includes_sublist)

lemma partialMatches_spec: "partialMatches av ai [] = spec_substring_matches ai av"
  by (simp add: partialMatches_lowered spec_substring_matches_def comp_def)

lemma at_index_indexOf: "at_index av (indexOf (map f av) m) = find (\<lambda>a. f a = m) av"
proof (induction av)
  case Nil
  then show ?case by (simp add: at_index_def)
next
  case (Cons a av)
  have "at_index (a # av) (map_option Suc i) = at_index av i" for i
    by (cases i) (simp_all add: at_index_def)
  with Cons show ?case by (simp add: at_index_def)
qed

lemma exact_lookup:
  "map (\<lambda>m. find (\<lambda>a. f a = m) av) (filter (\<lambda>g. g \<in> set (map f av)) ls)
     = map Some (List.map_filter (\<lambda>l. find (\<lambda>a. f a = l) av) ls)"
proof (induction ls)
  case Nil
  then show ?case by simp
next
  case (Cons l ls)
  show ?case
  proof (cases "find (\<lambda>a. f a = l) av")
    case None
    then have "l \<notin> set (map f av)" by (auto simp: find_None_iff)
    with None Cons show ?thesis by simp
  next
    case (Some a)
    then have "l \<in> set (map f av)" by (auto simp: find_Some_iff)
    with Some Cons show ?thesis by simp
  qed
qed

lemma map_filter_lowered:
  "List.map_filter (\<lambda>g. find (\<lambda>a. toLowerCase a = toLowerCase g) av) ai
     = List.map_filter (\<lambda>l. find (\<lambda>a. toLowerCase a = l) av) (map toLowerCase ai)"
  by (induction ai) (simp_all split: option.splits)

lemma matchGenres_lowered:
  "matchGenresToAvailableSeeds ai av =
     (let ls = map toLowerCase ai in
      if ls = [] then []
      else if List.map_filter (\<lambda>l. find (\<lambda>a. toLowerCase a = l) av) ls \<noteq> []
      then map Some (List.map_filter (\<lambda>l. find (\<lambda>a. toLowerCase a = l) av) ls)
      else map Some (take 5 (dedupe
             (concat (map (\<lambda>l. filter (\<lambda>a. sublist l (toLowerCase a) \<or> sublist (toLowerCase a) l) av) ls)))))"
proof -
  define ls where "ls = map toLowerCase ai"
  define ex where "ex = filter (\<lambda>g. g \<in> set (map toLowerCase av)) ls"
  define mf where "mf = List.map_filter (\<lambda>l. find (\<lambda>a. toLowerCase a = l) av) ls"
  define pm where "pm = concat (map (\<lambda>l. filter (\<lambda>a. sublist l (toLowerCase a)
                                \<or> sublist (toLowerCase a) l) av) ls)"
  have look: "map (\<lambda>m. at_index av (indexOf (map toLowerCase av) m)) ex = map Some mf"
    unfolding ex_def mf_def by (simp only: at_index_indexOf exact_lookup)
  then have "length ex = length mf"
    by (metis length_map)
  then have empty: "ex = [] \<longleftrightarrow> mf = []"
    by (metis length_0_conv)
  have part: "partialMatches av ai [] = pm"
    unfolding pm_def ls_def by (simp only: partialMatches_lowered append_Nil)
  have code: "matchGenresToAvailableSeeds ai av =
      (if length ai = 0 then []
       else if length ex > 0
            then map (\<lambda>m. at_index av (indexOf (map toLowerCase av) m)) ex
            else map Some (take 5 (newSet (partialMatches av ai []))))"
    unfolding matchGenresToAvailableSeeds_def Let_def ex_def ls_def by (rule refl)
  have nil: "length ai = 0 \<longleftrightarrow> ls = []"
    unfolding ls_def by simp
  have "matchGenresToAvailableSeeds ai av =
      (if ls = [] then [] else if mf \<noteq> [] then map Some mf
       else map Some (take 5 (dedupe pm)))"
    unfolding code nil part newSet_dedupe look using empty by simp
  then show ?thesis
    unfolding Let_def ls_def mf_def pm_def .
qed

lemma matchGenres_spec_match:
  "matchGenresToAvailableSeeds ai av = map Some (spec_match ai av)"
  by (simp add: matchGenres_lowered spec_match_def spec_exact_matches_def
      spec_substring_matches_def map_filter_lowered Let_def comp_def)

text \<open>
  Claim C4. For all AI genres and available genres, \<^verbatim>\<open>matchGenresToAvailableSeeds\<close> returns
  the empty sequence when there are no AI genres; when an exact match up to case exists it
  returns exactly the exact matches in the available genres' own casing; only otherwise it
  returns the substring matches in either direction, deduplicated and cut to at most 5.
  No element of the result is \<^verbatim>\<open>undefined\<close>. The result depends on the AI genres up to case
  only. In particular \<open>[rock]\<close> against \<open>[rock, pop]\<close> gives \<open>[rock]\<close> and \<open>[synth]\<close> against
  \<open>[synthpop]\<close> gives \<open>[synthpop]\<close>.
\<close>

theorem matchGenresToAvailableSeeds_spec:
  "matchGenresToAvailableSeeds aiGenres availableGenres
     = map Some (spec_match aiGenres availableGenres)
   \<and> (map toLowerCase ai' = map toLowerCase aiGenres \<longrightarrow>
        matchGenresToAvailableSeeds ai' availableGenres
          = matchGenresToAvailableSeeds aiGenres availableGenres)
   \<and> matchGenresToAvailableSeeds [] availableGenres = []
   \<and> matchGenresToAvailableSeeds [''rock''] [''rock'', ''pop''] = [Some ''rock'']
   \<and> matchGenresToAvailableSeeds [''synth''] [''synthpop''] = [Some ''synthpop'']"
proof (intro conjI impI)
  show "matchGenresToAvailableSeeds aiGenres availableGenres
     = map Some (spec_match aiGenres availableGenres)"
    by (rule matchGenres_spec_match)
  show "matchGenresToAvailableSeeds ai' availableGenres
          = matchGenresToAvailableSeeds aiGenres availableGenres"
    if "map toLowerCase ai' = map toLowerCase aiGenres"
    using that by (simp only: matchGenres_lowered)
  show "matchGenresToAvailableSeeds [] availableGenres = []"
    by (simp add: matchGenresToAvailableSeeds_def)
  show "matchGenresToAvailableSeeds [''rock''] [''rock'', ''pop''] = [Some ''rock'']"
    by (simp add: matchGenresToAvailableSeeds_def toLowerCase_def toLowerChar_def at_index_def)
  show "matchGenresToAvailableSeeds [''synth''] [''synthpop''] = [Some ''synthpop'']"
    by (simp add: matchGenresToAvailableSeeds_def toLowerCase_def toLowerChar_def
        newSet_def setAdd_def)
qed

theorem matchGenresToAvailableSeeds_spec_witness:
  "matchGenresToAvailableSeeds [''ROCK'', ''Hip''] [''Hip-Hop'', ''Rock'', ''rock''] = [Some ''Rock'']
   \<and> matchGenresToAvailableSeeds [''rock'', ''hIP''] [''Hip-Hop'', ''Rock'', ''rock''] = [Some ''Rock'']
   \<and> map toLowerCase [''rock'', ''hIP''] = map toLowerCase [''ROCK'', ''Hip'']"
proof -
  have low: "map toLowerCase [''rock'', ''hIP''] = map toLowerCase [''ROCK'', ''Hip'']"
    by (simp add: toLowerCase_def toLowerChar_def)
  have one: "matchGenresToAvailableSeeds [''ROCK'', ''Hip''] [''Hip-Hop'', ''Rock'', ''rock'']
      = [Some ''Rock'']"
    by (simp add: matchGenresToAvailableSeeds_def toLowerCase_def toLowerChar_def at_index_def)
  from matchGenresToAvailableSeeds_spec
         [of "[''ROCK'', ''Hip'']" "[''Hip-Hop'', ''Rock'', ''rock'']" "[''rock'', ''hIP'']"] low
  have "matchGenresToAvailableSeeds [''rock'', ''hIP''] [''Hip-Hop'', ''Rock'', ''rock'']
      = matchGenresToAvailableSeeds [''ROCK'', ''Hip''] [''Hip-Hop'', ''Rock'', ''rock'']"
    by blast
  with one low show ?thesis by simp
qed

section \<open>Properties of the scorer\<close>























section \<open>Properties of the collector\<close>

lemma mapSet_keys:
  "map fst (mapSet m k v) = (if k \<in> set (map fst m) then map fst m else map fst m @ [k])"
  by (induction m k v rule: mapSet.induct) auto

lemma mapSet_map_of:
  "map_of (mapSet m k v) = (map_of m)(k \<mapsto> v)"
  by (induction m k v rule: mapSet.induct) (auto simp: fun_upd_twist)

lemma newMap_snoc: "newMap (es @ [(k, v)]) = mapSet (newMap es) k v"
  by (simp add: newMap_def)

lemma dedupe_snoc:
  "dedupe (ks @ [k]) = (if k \<in> set ks then dedupe ks else dedupe ks @ [k])"
  by (simp add: dedupe_def)

lemma distinct_dedupe: "distinct (dedupe ks)"
  by (simp add: dedupe_def)

lemma set_dedupe: "set (dedupe ks) = set ks"
  by (simp add: dedupe_def)

lemma newMap_keys: "map fst (newMap es) = dedupe (map fst es)"
proof (induction es rule: rev_induct)
  case Nil
  show ?case by (simp add: newMap_def dedupe_def)
next
  case (snoc e es)
  obtain k v where e: "e = (k, v)" by (cases e)
  show ?case
    unfolding e newMap_snoc mapSet_keys snoc.IH
    by (simp add: dedupe_snoc set_dedupe)
qed

lemma newMap_map_of: "map_of (newMap es) = map_of (rev es)"
proof (induction es rule: rev_induct)
  case Nil
  show ?case by (simp add: newMap_def)
next
  case (snoc e es)
  obtain k v where e: "e = (k, v)" by (cases e)
  show ?case
    unfolding e newMap_snoc mapSet_map_of snoc.IH by simp
qed

lemma map_of_keyed: "map_of (map (\<lambda>t. (f t, t)) ys) k = find (\<lambda>t. f t = k) ys"
  by (induction ys) auto

lemma uniqueById_ids: "map track_id (uniqueById xs) = dedupe (map track_id xs)"
proof -
  have "map fst (newMap (map (\<lambda>t. (track_id t, t)) xs)) = dedupe (map track_id xs)"
    by (simp add: newMap_keys comp_def)
  moreover have "\<forall>(k, t) \<in> set (newMap (map (\<lambda>t. (track_id t, t)) xs)). k = track_id t"
  proof (induction xs rule: rev_induct)
    case Nil
    show ?case by (simp add: newMap_def)
  next
    case (snoc x xs)
    have "\<forall>(k', t) \<in> set (mapSet m k v). k' = track_id t"
      if "\<forall>(k', t) \<in> set m. k' = track_id t" "k = track_id v" for m k and v :: Track
      using that by (induction m k v rule: mapSet.induct) auto
    with snoc show ?case by (simp add: newMap_snoc)
  qed
  then have "map fst (newMap (map (\<lambda>t. (track_id t, t)) xs))
      = map track_id (map snd (newMap (map (\<lambda>t. (track_id t, t)) xs)))"
    by (auto simp: comp_def)
  ultimately show ?thesis by (simp add: uniqueById_def)
qed

lemma uniqueById_last:
  assumes "u \<in> set (uniqueById xs)"
  shows "find (\<lambda>t. track_id t = track_id u) (rev xs) = Some u"
proof -
  let ?m = "newMap (map (\<lambda>t. (track_id t, t)) xs)"
  from assms obtain k where ku: "(k, u) \<in> set ?m"
    by (auto simp: uniqueById_def)
  have "distinct (map fst ?m)"
    by (simp add: newMap_keys distinct_dedupe)
  with ku have "map_of ?m k = Some u" by simp
  then have "map_of (map (\<lambda>t. (track_id t, t)) (rev xs)) k = Some u"
    by (simp add: newMap_map_of rev_map)
  then have f: "find (\<lambda>t. track_id t = k) (rev xs) = Some u"
    by (simp only: map_of_keyed)
  then have "track_id u = k"
    by (auto simp: find_Some_iff)
  with f show ?thesis by simp
qed

lemma allTracks_updateProgress [simp]:
  "allTracks (updateProgress cb s p m st) = allTracks st"
  by (simp add: updateProgress_def Let_def)

lemma playlistLoop_tracks:
  "fst (playlistLoop api tok config percent pcb n i ids (acc, obs))
     = acc @ concat (map (\<lambda>pid. fetchPlaylistTracks api tok pid config) ids)"
  by (induction ids arbitrary: acc obs i) simp_all

lemma playlistLoop_allTracks:
  "allTracks (snd (playlistLoop api tok config percent
       (\<lambda>prog. updateProgress cb (s prog) (p prog) (m prog)) n i ids (acc, st))) = allTracks st"
  by (induction ids arbitrary: acc st i) simp_all

lemma gathered_tracks:
  "allTracks (gatherSources api tok sources config percent cb obs)
     = gatheredTracks api tok sources config"
proof -
  define st0 where "st0 = collectLikedSongs api tok sources config cb (initialCollectState obs)"
  define st1 where "st1 = collectTopTracks api tok sources config cb st0"
  have a0: "allTracks st0 = (if useLikedSongs sources then fetchLikedSongs api tok config else [])"
    by (simp add: st0_def collectLikedSongs_def initialCollectState_def Let_def)
  have a1: "allTracks st1 = allTracks st0
      @ (if useTopTracks sources then fetchTopTracks api tok config else [])"
    by (simp add: st1_def collectTopTracks_def Let_def)
  have a2: "allTracks (collectPlaylists api tok sources config percent cb st1) = allTracks st1
      @ (if playlists sources \<noteq> [] then selectedPlaylistTracks api tok (playlists sources) config else [])"
  proof (cases "playlists sources = []")
    case True
    then show ?thesis by (simp add: collectPlaylists_def)
  next
    case False
    define L where "L = playlistLoop api tok config percent
       (\<lambda>prog. updateProgress cb ''collecting'' (40 + (2 * prog) div 5)
                          (''Fetching playlist tracks: '' @ showNat prog @ ''% complete''))
       (length (take (maxPlaylists config) (playlists sources))) 0
       (take (maxPlaylists config) (playlists sources))
       ([], updateProgress cb ''collecting'' 40 ''Fetching tracks from your playlists...'' st1)"
    have ts: "fst L = concat (map (\<lambda>pid. fetchPlaylistTracks api tok pid config)
                          (take (maxPlaylists config) (playlists sources)))"
      unfolding L_def by (simp only: playlistLoop_tracks append_Nil)
    have st': "allTracks (snd L) = allTracks st1"
      unfolding L_def by (simp only: playlistLoop_allTracks allTracks_updateProgress)
    have "collectPlaylists api tok sources config percent cb st1
        = (snd L)\<lparr>allTracks := allTracks (snd L) @ uniqueById (fst L)\<rparr>"
      using False
      by (simp add: collectPlaylists_def fetchSelectedPlaylistTracks_def Let_def split_def L_def)
    then show ?thesis
      using False by (simp add: ts st' selectedPlaylistTracks_def)
  qed
  have "gatherSources api tok sources config percent cb obs
      = collectPlaylists api tok sources config percent cb st1"
    by (simp only: gatherSources_def st0_def st1_def)
  then show ?thesis
    by (simp only: a2 a1 a0 gatheredTracks_def append_assoc)
qed

lemma targetPoolSize_pos: "0 < targetPoolSize (PROCESSING_CONFIGS m)"
  by (cases m) simp_all

lemma collectTracks_pool:
  "fst (collectTracks api percent tok sources m cb obs)
     = take (targetPoolSize (PROCESSING_CONFIGS m))
         (uniqueById (gatheredTracks api tok sources (PROCESSING_CONFIGS m)))"
  by (simp add: collectTracks_def Let_def gathered_tracks targetPoolSize_pos split_def)

text \<open>
  Claim C2, as amended. For every collection, the pool that \<^verbatim>\<open>collectTracks\<close> returns holds
  the first \<open>targetPoolSize\<close> distinct track ids of the gathered sources, in the order of
  their first occurrence: each id occurs at most once, and exactly once when it is among
  those first ids. The element kept for an id is the data of its last occurrence in the
  gathered tracks (a later source replaces the data of an earlier one in place).
\<close>

theorem collectTracks_dedup:
  "map track_id (fst (collectTracks api percent tok sources m cb obs))
     = take (targetPoolSize (PROCESSING_CONFIGS m))
         (dedupe (map track_id (gatheredTracks api tok sources (PROCESSING_CONFIGS m))))
   \<and> distinct (map track_id (fst (collectTracks api percent tok sources m cb obs)))
   \<and> list_all (\<lambda>u. find (\<lambda>t. track_id t = track_id u)
                      (rev (gatheredTracks api tok sources (PROCESSING_CONFIGS m))) = Some u)
        (fst (collectTracks api percent tok sources m cb obs))"
proof (intro conjI)
  let ?g = "gatheredTracks api tok sources (PROCESSING_CONFIGS m)"
  let ?n = "targetPoolSize (PROCESSING_CONFIGS m)"
  show ids: "map track_id (fst (collectTracks api percent tok sources m cb obs))
      = take ?n (dedupe (map track_id ?g))"
    unfolding collectTracks_pool by (simp only: take_map [symmetric] uniqueById_ids)
  show "distinct (map track_id (fst (collectTracks api percent tok sources m cb obs)))"
    unfolding ids by (rule distinct_take) (rule distinct_dedupe)
  show "list_all (\<lambda>u. find (\<lambda>t. track_id t = track_id u) (rev ?g) = Some u)
        (fst (collectTracks api percent tok sources m cb obs))"
    unfolding list_all_iff collectTracks_pool
    using uniqueById_last by (blast dest: in_set_takeD)
qed

lemmas collector_eval =
  collectTracks_def gatherSources_def collectLikedSongs_def collectTopTracks_def
  collectPlaylists_def fetchSelectedPlaylistTracks_def fetchPlaylistTracks_def
  fetchLikedSongs_def fetchTopTracks_def uniqueById_def newMap_def nonNull_def
  updateProgress_def initialCollectState_def report_def example_catalogue_def
  example_sources_def example_track_def gatheredTracks_def selectedPlaylistTracks_def
  dedupe_def Let_def

theorem collectTracks_dedup_witness:
  "map track_id (fst (collectTracks example_catalogue example_percent ''token''
       example_sources quick None ())) = [''x'', ''y'', ''z'']"
  using collectTracks_dedup [of example_catalogue example_percent "''token''"
       example_sources quick None "()"]
  by (simp add: gatheredTracks_def selectedPlaylistTracks_def fetchPlaylistTracks_def
      fetchLikedSongs_def uniqueById_def newMap_def nonNull_def example_catalogue_def
      example_sources_def example_track_def dedupe_def)

text \<open>
  The claim as first stated fails: the track \<open>x\<close> comes first from the liked songs and then
  from the playlist \<open>p\<close>; the pool holds it once, with the playlist's data, not with the
  data of the liked song that was seen first.
\<close>

theorem collectTracks_dedup_counterexample:
  "hd (fetchLikedSongs example_catalogue ''token'' (PROCESSING_CONFIGS quick))
     = (example_track ''x'' 10 None)\<lparr>track_name := ''x as liked''\<rparr>
   \<and> fst (collectTracks example_catalogue example_percent ''token''
        example_sources quick None ())
     = [(example_track ''x'' 10 None)\<lparr>track_name := ''x in playlist''\<rparr>,
        example_track ''y'' 20 None, example_track ''z'' 30 None]
   \<and> (example_track ''x'' 10 None)\<lparr>track_name := ''x in playlist''\<rparr>
       \<noteq> (example_track ''x'' 10 None)\<lparr>track_name := ''x as liked''\<rparr>"
  by (simp add: collector_eval)

section \<open>Properties of the progress tracker\<close>

text \<open>
  Claim C7, as amended. For every non-empty key the progress read never throws (it never
  answers 500): for an unknown key it returns the synthetic default with stage
  \<open>initializing\<close> and progress 5, which lies in 0 to 100; for a known key it returns the
  stored entry with the remaining time recomputed as \<open>max (0, total - elapsed)\<close>, where
  \<open>total\<close> is the mode's estimate and \<open>elapsed\<close> the seconds since the entry's start, and
  raised to 80 percent of the total while the recorded progress is below 20. A missing or
  empty key is answered with status 400.
\<close>

theorem getProgress_read:
  assumes "key \<noteq> []"
  shows "(progressMap key = None \<longrightarrow>
            getProgress now progressMap (Some key)
              = ProgressDefault \<lparr>stage = ''initializing'', progress = 5,
                  message = ''Initializing playlist generation...'',
                  remainingTimeEstimate = 60\<rparr>)
       \<and> (progressMap key = Some p \<longrightarrow>
            getProgress now progressMap (Some key)
              = ProgressFound (p\<lparr>remainingTimeEstimate :=
                  (if progress p < 20
                   then max (max 0 (getEstimatedTimeForMode (processingMode p)
                                     - of_int (int now - int (startTime p)) / 1000))
                            (getEstimatedTimeForMode (processingMode p) * 0.8)
                   else max 0 (getEstimatedTimeForMode (processingMode p)
                                - of_int (int now - int (startTime p)) / 1000))\<rparr>))
       \<and> (\<forall>msg. getProgress now progressMap playlistId \<noteq> ProgressFailed msg)
       \<and> getProgress now progressMap None = BadRequest ''Missing playlistId parameter''
       \<and> getProgress now progressMap (Some []) = BadRequest ''Missing playlistId parameter''"
  using assms
  by (auto simp: getProgress_def Let_def split: option.splits)

theorem getProgress_read_witness:
  "getProgress 7000 ([''pl1'' \<mapsto> example_entry]) (Some ''pl1'')
     = ProgressFound (example_entry\<lparr>remainingTimeEstimate := 24\<rparr>)
   \<and> getProgress 7000 ([''pl1'' \<mapsto> example_entry]) (Some ''other'')
     = ProgressDefault \<lparr>stage = ''initializing'', progress = 5,
                  message = ''Initializing playlist generation...'',
                  remainingTimeEstimate = 60\<rparr>"
  using getProgress_read [where key = "''pl1''" and p = example_entry and now = 7000
      and progressMap = "[''pl1'' \<mapsto> example_entry]"]
    getProgress_read [where key = "''other''" and now = 7000
      and progressMap = "[''pl1'' \<mapsto> example_entry]"]
  by (simp add: example_entry_def)

text \<open>
  The claim as first stated fails at the empty key: it is unknown to the tracker, and the
  read answers 400 instead of the default progress.
\<close>

theorem getProgress_read_counterexample:
  "[''pl1'' \<mapsto> example_entry] [] = None
   \<and> getProgress 7000 ([''pl1'' \<mapsto> example_entry]) (Some [])
       = BadRequest ''Missing playlistId parameter''
   \<and> getProgress 7000 ([''pl1'' \<mapsto> example_entry]) (Some [])
       \<noteq> ProgressDefault \<lparr>stage = ''initializing'', progress = 5,
                  message = ''Initializing playlist generation...'',
                  remainingTimeEstimate = 60\<rparr>"
  by (simp add: getProgress_def)

section \<open>Properties of the prompt analyzer\<close>






section \<open>Properties of the route and of the recommendations source\<close>












lemma singleFeatures_catalogue [simp]:
  "singleFeatures (w\<lparr>w_catalogue := c\<rparr>) t = singleFeatures w t"
  by (simp add: singleFeatures_def)

lemma featureBatches_catalogue [simp]:
  "featureBatches (w\<lparr>w_catalogue := c\<rparr>) bs acc = featureBatches w bs acc"
proof (induction bs arbitrary: acc)
  case Nil
  show ?case by simp
next
  case (Cons b bs)
  have "singleFeatures (w\<lparr>w_catalogue := c\<rparr>) = singleFeatures w"
    by (rule ext) simp
  with Cons show ?case
    by (simp add: Let_def split: BulkOutcome.splits)
qed

lemma enrichFeatures_catalogue [simp]:
  "enrichFeatures (w\<lparr>w_catalogue := c\<rparr>) ts = enrichFeatures w ts"
  by (simp add: enrichFeatures_def)

lemma gatherSources_flag:
  "gatherSources api tok (sources\<lparr>useRecommendations := b\<rparr>) config percent cb obs
     = gatherSources api tok sources config percent cb obs"
proof -
  have l: "collectLikedSongs api tok (sources\<lparr>useRecommendations := b\<rparr>) config cb st
      = collectLikedSongs api tok sources config cb st" for st :: "'a CollectState"
    by (simp add: collectLikedSongs_def)
  have t: "collectTopTracks api tok (sources\<lparr>useRecommendations := b\<rparr>) config cb st
      = collectTopTracks api tok sources config cb st" for st :: "'a CollectState"
    by (simp add: collectTopTracks_def)
  have p: "collectPlaylists api tok (sources\<lparr>useRecommendations := b\<rparr>) config percent cb st
      = collectPlaylists api tok sources config percent cb st" for st :: "'a CollectState"
    by (simp add: collectPlaylists_def)
  show ?thesis
    by (simp only: gatherSources_def l t p)
qed

lemma collectTracks_flag:
  "collectTracks api percent tok (sources\<lparr>useRecommendations := b\<rparr>) m cb obs
     = collectTracks api percent tok sources m cb obs"
  by (simp only: collectTracks_def gatherSources_flag)

lemma fetchers_recommendations:
  "fetchLikedSongs (api\<lparr>recommendations := r\<rparr>) tok config = fetchLikedSongs api tok config"
  "fetchTopTracks (api\<lparr>recommendations := r\<rparr>) tok config = fetchTopTracks api tok config"
  "fetchPlaylistTracks (api\<lparr>recommendations := r\<rparr>) tok pid config
     = fetchPlaylistTracks api tok pid config"
  by (simp_all add: fetchLikedSongs_def fetchTopTracks_def fetchPlaylistTracks_def)

lemma playlistLoop_recommendations:
  "playlistLoop (api\<lparr>recommendations := r\<rparr>) tok config percent pcb n i ids st
     = playlistLoop api tok config percent pcb n i ids st"
proof (induction ids arbitrary: i st)
  case Nil
  show ?case by simp
next
  case (Cons pid ids)
  then show ?case
    by (cases st) (simp add: fetchers_recommendations)
qed

lemma gatherSources_recommendations:
  "gatherSources (api\<lparr>recommendations := r\<rparr>) tok sources config percent cb obs
     = gatherSources api tok sources config percent cb obs"
proof -
  have l: "collectLikedSongs (api\<lparr>recommendations := r\<rparr>) tok sources config cb st
      = collectLikedSongs api tok sources config cb st" for st :: "'a CollectState"
    by (simp add: collectLikedSongs_def fetchers_recommendations)
  have t: "collectTopTracks (api\<lparr>recommendations := r\<rparr>) tok sources config cb st
      = collectTopTracks api tok sources config cb st" for st :: "'a CollectState"
    by (simp add: collectTopTracks_def fetchers_recommendations)
  have p: "collectPlaylists (api\<lparr>recommendations := r\<rparr>) tok sources config percent cb st
      = collectPlaylists api tok sources config percent cb st" for st :: "'a CollectState"
    by (simp add: collectPlaylists_def fetchSelectedPlaylistTracks_def
        playlistLoop_recommendations)
  show ?thesis
    by (simp only: gatherSources_def l t p)
qed

lemma collectTracks_recommendations:
  "collectTracks (api\<lparr>recommendations := r\<rparr>) percent tok sources m cb obs
     = collectTracks api percent tok sources m cb obs"
  by (simp only: collectTracks_def gatherSources_recommendations)

lemma routeCollect_recommendations:
  "routeCollect (w\<lparr>w_catalogue := (w_catalogue w)\<lparr>recommendations := r\<rparr>\<rparr>) req tok pid pm
     = routeCollect w req tok pid pm"
  by (simp add: routeCollect_def collectTracks_recommendations)

lemma routeFinish_recommendations:
  "routeFinish (w\<lparr>w_catalogue := c\<rparr>) req pid e mg coll pm = routeFinish w req pid e mg coll pm"
  by (simp add: routeFinish_def routeSelect_def Let_def
      cong: AddOutcome.case_cong bool.case_cong if_cong)

lemma generatePlaylist_recommendations:
  "generatePlaylist (w\<lparr>w_catalogue := (w_catalogue w)\<lparr>recommendations := r\<rparr>\<rparr>) req pm
     = generatePlaylist w req pm"
  by (simp add: generatePlaylist_def routeCollect_recommendations routeFinish_recommendations
      cong: option.case_cong CreateOutcome.case_cong prod.case_cong if_cong)

lemma estimate_charges_recommendations:
  "estimatedSeconds (estimateProcessingTime (sources\<lparr>useRecommendations := True\<rparr>) m sizes)
     = estimatedSeconds (estimateProcessingTime (sources\<lparr>useRecommendations := False\<rparr>) m sizes) + 5"
proof -
  have "estimatedSecondsRaw (sources\<lparr>useRecommendations := True\<rparr>) m sizes
      = estimatedSecondsRaw (sources\<lparr>useRecommendations := False\<rparr>) m sizes + 5"
    by (simp add: estimatedSecondsRaw_def Let_def)
  then show ?thesis
    by (simp add: estimateProcessingTime_def Let_def)
qed

text \<open>
  Claim C10. For every access token, processing mode and progress callback, two source
  selections that differ only in \<^verbatim>\<open>useRecommendations\<close> give the same result of
  \<^verbatim>\<open>collectTracks\<close>, pool and reported progress alike. Neither the collector nor the whole
  route reads the recommendations endpoint: their results do not depend on what it would
  answer. The estimate nevertheless is 5 seconds higher when \<^verbatim>\<open>useRecommendations\<close> is
  selected.
\<close>

theorem recommendations_never_fetched:
  "collectTracks api percent tok (sources\<lparr>useRecommendations := b\<rparr>) m cb obs
     = collectTracks api percent tok sources m cb obs
   \<and> collectTracks (api\<lparr>recommendations := r\<rparr>) percent tok sources m cb obs
     = collectTracks api percent tok sources m cb obs
   \<and> generatePlaylist (w\<lparr>w_catalogue := (w_catalogue w)\<lparr>recommendations := r\<rparr>\<rparr>) req pm
     = generatePlaylist w req pm
   \<and> estimatedSeconds (estimateProcessingTime (sources\<lparr>useRecommendations := True\<rparr>) m sizes)
     = estimatedSeconds (estimateProcessingTime (sources\<lparr>useRecommendations := False\<rparr>) m sizes) + 5"
  by (simp only: collectTracks_flag collectTracks_recommendations
      generatePlaylist_recommendations estimate_charges_recommendations simp_thms)

theorem recommendations_never_fetched_witness:
  "fst (collectTracks example_catalogue example_percent ''token''
          (example_sources\<lparr>useRecommendations := True\<rparr>) quick None ())
     = fst (collectTracks example_catalogue example_percent ''token'' example_sources quick None ())
   \<and> estimatedSeconds (estimateProcessingTime (example_sources\<lparr>useRecommendations := True\<rparr>)
        quick Map.empty) = 21
   \<and> estimatedSeconds (estimateProcessingTime example_sources quick Map.empty) = 16"
proof -
  have base: "estimatedSeconds (estimateProcessingTime example_sources quick Map.empty) = 16"
    by (simp add: estimateProcessingTime_def estimatedSecondsRaw_def playlistTime_def
        audioFeaturesTime_def tracksToProcess_def playlistSizeOr50_def example_sources_def
        Let_def ceiling_eq_iff)
  have same: "example_sources\<lparr>useRecommendations := False\<rparr> = example_sources"
    by (simp add: example_sources_def)
  note inst = recommendations_never_fetched [where api = example_catalogue
      and percent = example_percent and tok = "''token''" and sources = example_sources
      and b = True and m = quick and cb = None and obs = "()" and sizes = Map.empty]
  from inst have "collectTracks example_catalogue example_percent ''token''
          (example_sources\<lparr>useRecommendations := True\<rparr>) quick None ()
     = collectTracks example_catalogue example_percent ''token'' example_sources quick None ()"
    by blast
  moreover from inst same base
  have "estimatedSeconds (estimateProcessingTime (example_sources\<lparr>useRecommendations := True\<rparr>)
        quick Map.empty) = 21"
    by simp
  ultimately show ?thesis using base by simp
qed

end
